theory Spec2Isabelle
  imports Main
begin

section \<open>SCORMint: the SCORM adapter of src/index.js\<close>

text \<open>
  The class \<^verbatim>\<open>SCORM\<close> of \<^verbatim>\<open>src/index.js\<close> is embedded method by method.
  An instance is a record that every method takes and returns; a thrown error is the
  \<open>Inl\<close> side of a sum; the browser (the window objects and the global \<^verbatim>\<open>window\<close>) and
  the host's API object are explicit parameters. Output to \<^verbatim>\<open>console\<close> changes no state
  and is left out; the calls made while computing its arguments are kept.
\<close>

subsection \<open>JavaScript values\<close>

text \<open>
  A reference-valued property (\<^verbatim>\<open>window.parent\<close>, \<^verbatim>\<open>window.API\<close>, \<^verbatim>\<open>this._api\<close>) is
  \<^verbatim>\<open>undefined\<close>, \<^verbatim>\<open>null\<close> or an object, named by its identity.
\<close>

datatype 'a ref = Undefined | Null | Ref 'a

fun truthy_ref :: "'a ref \<Rightarrow> bool" where
  "truthy_ref (Ref _) = True"
| "truthy_ref _ = False"

text \<open>
  Primitive values, as passed to and returned by the host's API. \<open>JNum\<close> is an
  integer-valued number in the safe-integer range, where \<^verbatim>\<open>String(n)\<close> is the decimal
  numeral.
\<close>

datatype jsval = JUndefined | JNull | JBool bool | JNum int | JStr string

fun truthy :: "jsval \<Rightarrow> bool" where
  "truthy JUndefined = False"
| "truthy JNull = False"
| "truthy (JBool b) = b"
| "truthy (JNum n) = (n \<noteq> 0)"
| "truthy (JStr s) = (s \<noteq> [])"

text \<open>The version token is \<^verbatim>\<open>undefined\<close> or a string; the empty string is falsy.\<close>

fun truthy_str :: "string option \<Rightarrow> bool" where
  "truthy_str None = False"
| "truthy_str (Some s) = (s \<noteq> [])"

fun digits :: "nat \<Rightarrow> string" where
  "digits n = (if n < 10 then [''0123456789'' ! n]
               else digits (n div 10) @ [''0123456789'' ! (n mod 10)])"

declare digits.simps [simp del]

text \<open>\<^verbatim>\<open>String(value)\<close>\<close>

fun js_String :: "jsval \<Rightarrow> string" where
  "js_String JUndefined = ''undefined''"
| "js_String JNull = ''null''"
| "js_String (JBool b) = (if b then ''true'' else ''false'')"
| "js_String (JNum n) = (if n < 0 then CHR ''-'' # digits (nat (- n)) else digits (nat n))"
| "js_String (JStr s) = s"

subsection \<open>The browser\<close>

type_synonym wid = nat
type_synonym api = nat

record window =
  parent :: "wid ref"
  top_w :: "wid ref"
  opener :: "wid ref"
  API :: "api ref"
  API_1484_11 :: "api ref"

text \<open>
  The window objects by identity, and the object the global name \<^verbatim>\<open>window\<close> denotes.
\<close>

record browser =
  heap :: "wid \<Rightarrow> window"
  global_window :: wid

subsection \<open>Errors and the instance\<close>

text \<open>
  \<open>InvalidVersion v\<close> is \<^verbatim>\<open>Error(`Invalid version ${version}. Expected: [1.2, 2004]`)\<close>;
  \<open>ApiNotFound (Some v)\<close> is \<^verbatim>\<open>Error(`SCORM ${this.version} API requested but not found`)\<close>
  and \<open>ApiNotFound None\<close> is \<^verbatim>\<open>Error(`SCORM API not found`)\<close>; \<open>TypeError\<close> is what the
  engine throws on a property access on \<^verbatim>\<open>null\<close> or \<^verbatim>\<open>undefined\<close>.
\<close>

datatype error = InvalidVersion "string option" | ApiNotFound "string option" | TypeError

abbreviation VERSION_1_2 :: string where "VERSION_1_2 \<equiv> ''1.2''"
abbreviation VERSION_2004 :: string where "VERSION_2004 \<equiv> ''2004''"

text \<open>The fields \<^verbatim>\<open>_version\<close>, \<^verbatim>\<open>_depth\<close>, \<^verbatim>\<open>_api\<close>, \<^verbatim>\<open>_connected\<close> are \<open>p_version\<close>, ...\<close>

record SCORM =
  updateStatusAfterInitialize :: bool
  updateStatusBeforeTerminate :: bool
  p_version :: "string option"
  p_depth :: int
  p_api :: "api ref"
  p_connected :: bool

definition constructor :: "string option \<Rightarrow> error + SCORM" where
  "constructor version =
     (if version \<noteq> Some VERSION_1_2 \<and> version \<noteq> Some VERSION_2004
      then Inl (InvalidVersion version)
      else Inr \<lparr> updateStatusAfterInitialize = True,
                 updateStatusBeforeTerminate = True,
                 p_version = version,
                 p_depth = 10,
                 p_api = Null,
                 p_connected = False \<rparr>)"

definition version :: "SCORM \<Rightarrow> string option" where
  "version self = p_version self"

definition connected :: "SCORM \<Rightarrow> bool" where
  "connected self = p_connected self"

definition isV1 :: "SCORM \<Rightarrow> bool" where
  "isV1 self = (version self = Some VERSION_1_2)"

definition isV2 :: "SCORM \<Rightarrow> bool" where
  "isV2 self = (version self = Some VERSION_2004)"

subsection \<open>Discovery\<close>

text \<open>
  The \<^verbatim>\<open>do ... while\<close> of \<^verbatim>\<open>findAPI\<close> for one element \<open>w\<close> of \<^verbatim>\<open>windows\<close>. The flags
  \<open>api1_2\<close> and \<open>api2004\<close> are the truthiness of the two locals of that name, which is all
  the method reads of them. The result says first whether \<^verbatim>\<open>break both\<close> was taken.
  The loop variable \<^verbatim>\<open>window\<close> is assigned nowhere in the body, so each round reads the
  same object \<open>w\<close>.
\<close>

function do_while :: "(wid \<Rightarrow> window) \<Rightarrow> int \<Rightarrow> wid \<Rightarrow> int \<Rightarrow> bool \<Rightarrow> bool \<Rightarrow> bool \<times> bool \<times> bool" where
  "do_while h depth w attempts api1_2 api2004 =
     (let api1_2' = (api1_2 \<or> truthy_ref (API (h w)));
          api2004' = (api2004 \<or> truthy_ref (API_1484_11 (h w)))
      in if api1_2' \<and> api2004' then (True, api1_2', api2004')
         else if truthy_ref (parent (h w)) \<and> parent (h w) \<noteq> Ref w \<and> attempts \<le> depth
         then do_while h depth w (attempts + 1) api1_2' api2004'
         else (False, api1_2', api2004'))"
  by pat_completeness auto
termination
  by (relation "measure (\<lambda>(h, depth, w, attempts, a, b). nat (depth + 1 - attempts))") auto

declare do_while.simps [simp del]

text \<open>
  The \<^verbatim>\<open>for (let window of windows)\<close> loop. Reading \<^verbatim>\<open>window.API\<close> of an element that
  is \<^verbatim>\<open>null\<close> or \<^verbatim>\<open>undefined\<close> throws.
\<close>

fun for_of :: "(wid \<Rightarrow> window) \<Rightarrow> int \<Rightarrow> wid ref list \<Rightarrow> bool \<Rightarrow> bool \<Rightarrow> error + bool \<times> bool" where
  "for_of h depth [] api1_2 api2004 = Inr (api1_2, api2004)"
| "for_of h depth (Ref w # windows) api1_2 api2004 =
     (case do_while h depth w 0 api1_2 api2004 of
        (True, api1_2', api2004') \<Rightarrow> Inr (api1_2', api2004')
      | (False, api1_2', api2004') \<Rightarrow> for_of h depth windows api1_2' api2004')"
| "for_of h depth (_ # windows) api1_2 api2004 = Inl TypeError"

text \<open>
  \<^verbatim>\<open>findAPI(windows)\<close>. After the loop the name \<^verbatim>\<open>window\<close> is no longer the loop
  variable (its \<^verbatim>\<open>let\<close> is scoped to the loop) but the global object, so the slots are
  read from \<open>global_window\<close>. The pinned branch assigns \<^verbatim>\<open>_api\<close> before it tests it.
  The result is the error thrown, if any, and the instance as the call leaves it.
\<close>

definition findAPI :: "browser \<Rightarrow> wid ref list \<Rightarrow> SCORM \<Rightarrow> error option \<times> SCORM" where
  "findAPI b windows self =
     (let api1_2 = (truthy_str (version self) \<and> version self \<noteq> Some VERSION_1_2);
          api2004 = (truthy_str (version self) \<and> version self \<noteq> Some VERSION_2004);
          window = heap b (global_window b)
      in case for_of (heap b) (p_depth self) windows api1_2 api2004 of
           Inl e \<Rightarrow> (Some e, self)
         | Inr _ \<Rightarrow>
             if truthy_str (version self)
             then let self' = self\<lparr>p_api := (if isV1 self then API window else API_1484_11 window)\<rparr>
                  in if \<not> truthy_ref (p_api self')
                     then (Some (ApiNotFound (version self)), self')
                     else (None, self')
             else let self' =
                        (if truthy_ref (API window)
                         then self\<lparr>p_version := Some VERSION_1_2, p_api := API window\<rparr>
                         else if truthy_ref (API_1484_11 window)
                         then self\<lparr>p_version := Some VERSION_2004, p_api := API_1484_11 window\<rparr>
                         else self)
                  in if \<not> truthy_ref (p_api self')
                     then (Some (ApiNotFound None), self')
                     else (None, self'))"

subsection \<open>The host's API object\<close>

text \<open>
  The methods of the two shapes of the API object, and a call: the object it is made on,
  the method, and the arguments in order.
\<close>

datatype primitive =
    LMSInitialize | LMSFinish | LMSGetValue | LMSSetValue | LMSCommit
  | LMSGetLastError | LMSGetErrorString
  | Initialize | Terminate | GetValue | SetValue | Commit
  | GetLastError | GetErrorString

datatype call = Call api primitive "jsval list"

text \<open>
  The host is any deterministic object: what a call returns may depend on every call
  made before it. The calls made so far are the only state outside the instance.
\<close>

type_synonym host = "call list \<Rightarrow> call \<Rightarrow> jsval"

type_synonym 'a result = "(error + 'a) \<times> SCORM \<times> call list"

text \<open>
  \<^verbatim>\<open>r.m(args)\<close>: a call on \<^verbatim>\<open>null\<close> or \<^verbatim>\<open>undefined\<close> throws, a call on an object is
  recorded and answered by the host.
\<close>

definition invoke :: "host \<Rightarrow> api ref \<Rightarrow> primitive \<Rightarrow> jsval list \<Rightarrow> SCORM \<Rightarrow> call list \<Rightarrow> jsval result" where
  "invoke host r m args self tr =
     (case r of
        Ref a \<Rightarrow> (Inr (host tr (Call a m args)), self, tr @ [Call a m args])
      | _ \<Rightarrow> (Inl TypeError, self, tr))"

text \<open>Sequencing of two statements: an error thrown by the first skips the second.\<close>

definition and_then :: "'a result \<Rightarrow> ('a \<Rightarrow> SCORM \<Rightarrow> call list \<Rightarrow> 'b result) \<Rightarrow> 'b result" where
  "and_then m f =
     (case m of
        (Inl e, self, tr) \<Rightarrow> (Inl e, self, tr)
      | (Inr x, self, tr) \<Rightarrow> f x self tr)"

text \<open>\<^verbatim>\<open>code.toString()\<close>\<close>

fun js_toString :: "jsval \<Rightarrow> error + string" where
  "js_toString JUndefined = Inl TypeError"
| "js_toString JNull = Inl TypeError"
| "js_toString v = Inr (js_String v)"

subsection \<open>Field access\<close>

definition notConnected :: "SCORM \<Rightarrow> call list \<Rightarrow> jsval result" where
  "notConnected self tr = (Inr JNull, self, tr)"

definition get :: "host \<Rightarrow> jsval \<Rightarrow> SCORM \<Rightarrow> call list \<Rightarrow> jsval result" where
  "get host key self tr =
     (if \<not> p_connected self then notConnected self tr
      else if isV1 self then invoke host (p_api self) LMSGetValue [key] self tr
      else invoke host (p_api self) GetValue [key] self tr)"

definition set_value :: "host \<Rightarrow> jsval \<Rightarrow> jsval \<Rightarrow> SCORM \<Rightarrow> call list \<Rightarrow> jsval result" where
  "set_value host key val self tr =
     (if \<not> p_connected self then notConnected self tr
      else if isV1 self then invoke host (p_api self) LMSSetValue [key, val] self tr
      else invoke host (p_api self) SetValue [key, JStr (js_String val)] self tr)"

definition status :: "host \<Rightarrow> jsval \<Rightarrow> SCORM \<Rightarrow> call list \<Rightarrow> jsval result" where
  "status host st self tr =
     (if \<not> p_connected self then notConnected self tr
      else let cmi = JStr (if isV1 self then ''cmi.core.lesson_status''
                           else ''cmi.completion_status'')
           in if st = JUndefined then get host cmi self tr
              else set_value host cmi st self tr)"

definition save :: "host \<Rightarrow> SCORM \<Rightarrow> call list \<Rightarrow> jsval result" where
  "save host self tr =
     (if \<not> p_connected self then notConnected self tr
      else if isV1 self then invoke host (p_api self) LMSCommit [JStr ''''] self tr
      else invoke host (p_api self) Commit [JStr ''''] self tr)"

definition lastErrorCode :: "host \<Rightarrow> SCORM \<Rightarrow> call list \<Rightarrow> jsval result" where
  "lastErrorCode host self tr =
     (if \<not> p_connected self then notConnected self tr
      else if isV1 self then invoke host (p_api self) LMSGetLastError [] self tr
      else invoke host (p_api self) GetLastError [] self tr)"

definition errorString :: "host \<Rightarrow> jsval \<Rightarrow> SCORM \<Rightarrow> call list \<Rightarrow> jsval result" where
  "errorString host code self tr =
     (if \<not> p_connected self then notConnected self tr
      else case js_toString code of
             Inl e \<Rightarrow> (Inl e, self, tr)
           | Inr s \<Rightarrow>
               if isV1 self then invoke host (p_api self) LMSGetErrorString [JStr s] self tr
               else invoke host (p_api self) GetErrorString [JStr s] self tr)"

subsection \<open>Connection lifecycle\<close>

text \<open>
  \<^verbatim>\<open>initialize()\<close>. The argument of \<^verbatim>\<open>findAPI\<close> is \<^verbatim>\<open>[window, window.top.opener]\<close>, built
  and searched inside the \<^verbatim>\<open>try\<close>, whose \<^verbatim>\<open>catch\<close> returns with the instance as the failed
  call left it. The method returns \<^verbatim>\<open>undefined\<close>.
\<close>

definition initialize :: "browser \<Rightarrow> host \<Rightarrow> SCORM \<Rightarrow> call list \<Rightarrow> jsval result" where
  "initialize b host self tr =
     (if p_connected self then (Inr JUndefined, self, tr)
      else case top_w (heap b (global_window b)) of
        Ref t \<Rightarrow>
          (case findAPI b [Ref (global_window b), opener (heap b t)] self of
             (Some error, self) \<Rightarrow> (Inr JUndefined, self, tr)
           | (None, self) \<Rightarrow>
               and_then (if isV1 self then invoke host (p_api self) LMSInitialize [JStr ''''] self tr
                         else invoke host (p_api self) Initialize [JStr ''''] self tr)
                 (\<lambda>connected self tr.
                    let self = self\<lparr>p_connected := True\<rparr>
                    in if updateStatusAfterInitialize self
                       then and_then (status host JUndefined self tr)
                              (\<lambda>completion self tr.
                                 if \<not> truthy completion \<or> completion = JStr ''not attempted''
                                    \<or> completion = JStr ''unknown''
                                 then and_then (status host (JStr ''incomplete'') self tr)
                                        (\<lambda>_ self tr. and_then (save host self tr)
                                           (\<lambda>_ self tr. (Inr JUndefined, self, tr)))
                                 else (Inr JUndefined, self, tr))
                       else (Inr JUndefined, self, tr)))
      | _ \<Rightarrow> (Inr JUndefined, self, tr))"

text \<open>\<^verbatim>\<open>terminate()\<close>\<close>

definition terminate :: "host \<Rightarrow> SCORM \<Rightarrow> call list \<Rightarrow> jsval result" where
  "terminate host self tr =
     (if \<not> p_connected self then notConnected self tr
      else
        and_then
          (if updateStatusBeforeTerminate self
           then and_then (status host JUndefined self tr)
                  (\<lambda>completion self tr.
                     if completion \<noteq> JStr ''completed'' \<and> completion \<noteq> JStr ''passed''
                     then set_value host (JStr (if isV1 self then ''cmi.core.exit'' else ''cmi.exit''))
                            (JStr ''suspend'') self tr
                     else set_value host (JStr (if isV1 self then ''cmi.core.exit'' else ''cmi.exit''))
                            (JStr (if isV1 self then ''logout'' else ''normal'')) self tr)
           else (Inr JUndefined, self, tr))
          (\<lambda>_ self tr.
             and_then (save host self tr)
               (\<lambda>_ self tr.
                  and_then (if isV1 self then invoke host (p_api self) LMSFinish [JStr ''''] self tr
                            else invoke host (p_api self) Terminate [JStr ''''] self tr)
                    (\<lambda>success self tr.
                       if \<not> truthy success
                       then and_then (lastErrorCode host self tr)
                              (\<lambda>code self tr. and_then (errorString host code self tr)
                                 (\<lambda>_ self tr. (Inr JUndefined, self, tr)))
                       else (Inr JUndefined, self\<lparr>p_connected := False\<rparr>, tr)))))"

subsection \<open>Vocabulary of the properties\<close>

text \<open>
  The calls a method made are the calls after those made before it; \<open>answered\<close> pairs
  each of them with what the host returned. The primitive that a conditional
  \<^verbatim>\<open>this.isV1() ? ... : ...\<close> selects, and the two version-specific field names, are named.
\<close>

definition primitive_of :: "call \<Rightarrow> primitive" where
  "primitive_of c = (case c of Call a m args \<Rightarrow> m)"

fun answered :: "host \<Rightarrow> call list \<Rightarrow> call list \<Rightarrow> (call \<times> jsval) list" where
  "answered host tr [] = []"
| "answered host tr (c # cs) = (c, host tr c) # answered host (tr @ [c]) cs"

definition new_calls :: "call list \<Rightarrow> call list \<Rightarrow> call list" where
  "new_calls tr tr' = drop (length tr) tr'"

definition begin_session :: "SCORM \<Rightarrow> primitive" where
  "begin_session self = (if isV1 self then LMSInitialize else Initialize)"

definition end_session :: "SCORM \<Rightarrow> primitive" where
  "end_session self = (if isV1 self then LMSFinish else Terminate)"

definition get_value :: "SCORM \<Rightarrow> primitive" where
  "get_value self = (if isV1 self then LMSGetValue else GetValue)"

definition set_value_of :: "SCORM \<Rightarrow> primitive" where
  "set_value_of self = (if isV1 self then LMSSetValue else SetValue)"

definition commit :: "SCORM \<Rightarrow> primitive" where
  "commit self = (if isV1 self then LMSCommit else Commit)"

definition get_last_error :: "SCORM \<Rightarrow> primitive" where
  "get_last_error self = (if isV1 self then LMSGetLastError else GetLastError)"

definition get_error_string :: "SCORM \<Rightarrow> primitive" where
  "get_error_string self = (if isV1 self then LMSGetErrorString else GetErrorString)"

definition status_field :: "SCORM \<Rightarrow> string" where
  "status_field self = (if isV1 self then ''cmi.core.lesson_status'' else ''cmi.completion_status'')"

definition exit_field :: "SCORM \<Rightarrow> string" where
  "exit_field self = (if isV1 self then ''cmi.core.exit'' else ''cmi.exit'')"

definition exit_reason :: "SCORM \<Rightarrow> jsval \<Rightarrow> string" where
  "exit_reason self completion =
     (if completion = JStr ''completed'' \<or> completion = JStr ''passed''
      then (if isV1 self then ''logout'' else ''normal'') else ''suspend'')"

definition terminate_prelude :: "host \<Rightarrow> SCORM \<Rightarrow> api \<Rightarrow> call list \<Rightarrow> call list" where
  "terminate_prelude host self a tr =
     (if updateStatusBeforeTerminate self
      then [Call a (get_value self) [JStr (status_field self)],
            Call a (set_value_of self) [JStr (exit_field self),
               JStr (exit_reason self (host tr (Call a (get_value self) [JStr (status_field self)])))]]
      else []) @ [Call a (commit self) [JStr '''']]"

text \<open>
  The life of an instance: \<open>evolves s self\<close> says that \<open>self\<close> is what the instance \<open>s\<close>
  has become after any number of calls of its methods, in any browser, with any host and
  any arguments, and of assignments to its two public flags.
\<close>

inductive evolves :: "SCORM \<Rightarrow> SCORM \<Rightarrow> bool" where
  constructed: "evolves s s"
| by_findAPI: "evolves s self \<Longrightarrow> evolves s (snd (findAPI b windows self))"
| by_initialize: "evolves s self \<Longrightarrow> evolves s (fst (snd (initialize b host self tr)))"
| by_terminate: "evolves s self \<Longrightarrow> evolves s (fst (snd (terminate host self tr)))"
| by_status: "evolves s self \<Longrightarrow> evolves s (fst (snd (status host st self tr)))"
| by_get: "evolves s self \<Longrightarrow> evolves s (fst (snd (get host key self tr)))"
| by_set: "evolves s self \<Longrightarrow> evolves s (fst (snd (set_value host key val self tr)))"
| by_save: "evolves s self \<Longrightarrow> evolves s (fst (snd (save host self tr)))"
| by_lastErrorCode: "evolves s self \<Longrightarrow> evolves s (fst (snd (lastErrorCode host self tr)))"
| by_errorString: "evolves s self \<Longrightarrow> evolves s (fst (snd (errorString host code self tr)))"
| by_updateStatusAfterInitialize:
    "evolves s self \<Longrightarrow> evolves s (self\<lparr>updateStatusAfterInitialize := flag\<rparr>)"
| by_updateStatusBeforeTerminate:
    "evolves s self \<Longrightarrow> evolves s (self\<lparr>updateStatusBeforeTerminate := flag\<rparr>)"

subsection \<open>Concrete instances and browsers\<close>

definition no_window :: window where
  "no_window = \<lparr> parent = Undefined, top_w = Undefined, opener = Undefined,
                 API = Undefined, API_1484_11 = Undefined \<rparr>"

text \<open>The instance that \<^verbatim>\<open>new SCORM('1.2')\<close> returns, and the one of \<^verbatim>\<open>new SCORM('2004')\<close>.\<close>

definition scorm_1_2 :: SCORM where
  "scorm_1_2 = \<lparr> updateStatusAfterInitialize = True, updateStatusBeforeTerminate = True,
                  p_version = Some VERSION_1_2, p_depth = 10, p_api = Null, p_connected = False \<rparr>"

definition scorm_2004 :: SCORM where
  "scorm_2004 = \<lparr> updateStatusAfterInitialize = True, updateStatusBeforeTerminate = True,
                   p_version = Some VERSION_2004, p_depth = 10, p_api = Null, p_connected = False \<rparr>"

text \<open>Both after a successful \<^verbatim>\<open>initialize()\<close> that found the API object 5.\<close>

definition connected_1_2 :: SCORM where
  "connected_1_2 = scorm_1_2\<lparr>p_api := Ref 5, p_connected := True\<rparr>"

definition connected_2004 :: SCORM where
  "connected_2004 = scorm_2004\<lparr>p_api := Ref 5, p_connected := True\<rparr>"

text \<open>
  A host that reports the completion status \<open>st\<close>, the error code 101 with its text,
  and answers \<open>ok\<close> to every other call.
\<close>

definition lms :: "jsval \<Rightarrow> jsval \<Rightarrow> host" where
  "lms st ok tr c =
     (case c of Call a m args \<Rightarrow>
        if m = LMSGetValue \<or> m = GetValue then st
        else if m = LMSGetLastError \<or> m = GetLastError then JStr ''101''
        else if m = LMSGetErrorString \<or> m = GetErrorString then JStr ''General exception''
        else ok)"

text \<open>
  A page in a frame: window 0 is the page (and the global \<^verbatim>\<open>window\<close>), window 1 its
  parent and top window, which carries the SCORM 1.2 API object 7 and both of whose
  \<^verbatim>\<open>parent\<close> and \<^verbatim>\<open>top\<close> are itself.
\<close>

definition framed :: browser where
  "framed = \<lparr> heap = (\<lambda>_. no_window)
                 (0 := \<lparr> parent = Ref 1, top_w = Ref 1, opener = Null,
                         API = Undefined, API_1484_11 = Undefined \<rparr>,
                  1 := \<lparr> parent = Ref 1, top_w = Ref 1, opener = Null,
                         API = Ref 7, API_1484_11 = Undefined \<rparr>),
               global_window = 0 \<rparr>"

text \<open>
  Two unrelated top-level windows: window 0, the global one, carries the SCORM 1.2 API
  object 5; window 1 carries neither slot; window 2 carries the API object 7.
\<close>

definition two_tops :: browser where
  "two_tops = \<lparr> heap = (\<lambda>_. no_window)
                 (0 := \<lparr> parent = Ref 0, top_w = Ref 0, opener = Null,
                         API = Ref 5, API_1484_11 = Undefined \<rparr>,
                  1 := \<lparr> parent = Ref 1, top_w = Ref 1, opener = Null,
                         API = Undefined, API_1484_11 = Undefined \<rparr>,
                  2 := \<lparr> parent = Ref 2, top_w = Ref 2, opener = Null,
                         API = Ref 7, API_1484_11 = Undefined \<rparr>),
                global_window = 0 \<rparr>"

text \<open>A lone top-level window without any API slot.\<close>

definition bare :: browser where
  "bare = \<lparr> heap = (\<lambda>_. no_window)
               (0 := \<lparr> parent = Ref 0, top_w = Ref 0, opener = Null,
                       API = Undefined, API_1484_11 = Undefined \<rparr>),
            global_window = 0 \<rparr>"

section \<open>Properties\<close>

subsection \<open>Construction\<close>

lemma constructor_accepts:
  "v = Some VERSION_1_2 \<or> v = Some VERSION_2004 \<Longrightarrow>
   \<exists>self. constructor v = Inr self \<and> p_version self = v"
  by (auto simp: constructor_def)

lemma constructor_rejects:
  "v \<noteq> Some VERSION_1_2 \<Longrightarrow> v \<noteq> Some VERSION_2004 \<Longrightarrow>
   constructor v = Inl (InvalidVersion v)"
  by (simp add: constructor_def)

text \<open>
  C1. The claim is that construction with the version token absent succeeds (autodetect),
  as the constructor's own documentation says (``Leave blank for autodetect''). The code
  does otherwise: \<^verbatim>\<open>new SCORM()\<close>, the token absent, throws the invalid-version error,
  and so does the empty string.
\<close>

theorem constructor_absent_version_throws:
  "constructor None = Inl (InvalidVersion None) \<and>
   constructor (Some '''') = Inl (InvalidVersion (Some ''''))"
  by (simp add: constructor_def)

subsection \<open>Discovery\<close>

text \<open>
  Every round of the inner loop reads the same window, so the loop computes what its
  first round computes, whatever the hop counter and the bound are.
\<close>

lemma do_while_same_window:
  "do_while h depth w attempts api1_2 api2004 =
     ((api1_2 \<or> truthy_ref (API (h w))) \<and> (api2004 \<or> truthy_ref (API_1484_11 (h w))),
      api1_2 \<or> truthy_ref (API (h w)),
      api2004 \<or> truthy_ref (API_1484_11 (h w)))"
proof (induction h depth w attempts api1_2 api2004 rule: do_while.induct)
  case (1 h depth w attempts api1_2 api2004)
  show ?case
    using "1.IH" by (subst do_while.simps) (auto simp: Let_def)
qed

text \<open>
  C2. The claim is that a version-pinned discovery takes the handle from the searched
  contexts and fails when none of them holds the pinned slot. The code reads the handle
  from the global \<^verbatim>\<open>window\<close> after the loop and ignores what the search found: with
  the SCORM 1.2 API object 5 on the global window, searching only window 1, which has no
  slot, succeeds with object 5; searching only window 2, which holds object 7, also
  yields object 5; and with no slot on the global window, searching window 1 of the
  framed page, which holds object 7, fails.
\<close>

theorem findAPI_reads_global_window:
  "findAPI two_tops [Ref 1] scorm_1_2 = (None, scorm_1_2\<lparr>p_api := Ref 5\<rparr>) \<and>
   findAPI two_tops [Ref 2] scorm_1_2 = (None, scorm_1_2\<lparr>p_api := Ref 5\<rparr>) \<and>
   findAPI framed [Ref 1] scorm_1_2 =
     (Some (ApiNotFound (Some VERSION_1_2)), scorm_1_2\<lparr>p_api := Undefined\<rparr>)"
  by (simp add: findAPI_def two_tops_def framed_def scorm_1_2_def do_while_same_window
      version_def isV1_def)

text \<open>
  C3. The claim is that a slot present only on an ancestor within \<^verbatim>\<open>_depth\<close> hops of a
  listed context is found. The code never steps to the parent: for the framed page, whose
  parent window 1 holds the SCORM 1.2 API one hop up, the loops over the list \<open>[window 0]\<close>
  end with the flag \<open>api1_2\<close> still false, and \<^verbatim>\<open>findAPI\<close> throws.
\<close>

theorem findAPI_misses_parent_slot:
  "parent (heap framed 0) = Ref 1 \<and> API (heap framed 1) = Ref 7 \<and>
   for_of (heap framed) (p_depth scorm_1_2) [Ref 0] False True = Inr (False, True) \<and>
   findAPI framed [Ref 0] scorm_1_2 =
     (Some (ApiNotFound (Some VERSION_1_2)), scorm_1_2\<lparr>p_api := Undefined\<rparr>)"
  by (simp add: findAPI_def framed_def scorm_1_2_def do_while_same_window
      version_def isV1_def)

subsection \<open>Field access\<close>

lemma set_value_v1_raw:
  "p_connected self \<Longrightarrow> isV1 self \<Longrightarrow> p_api self = Ref a \<Longrightarrow>
   set_value host key val self tr =
     (Inr (host tr (Call a LMSSetValue [key, val])), self, tr @ [Call a LMSSetValue [key, val]])"
  by (simp add: set_value_def invoke_def)

lemma set_value_v2_coerces:
  "p_connected self \<Longrightarrow> \<not> isV1 self \<Longrightarrow> p_api self = Ref a \<Longrightarrow>
   set_value host key val self tr =
     (Inr (host tr (Call a SetValue [key, JStr (js_String val)])), self,
      tr @ [Call a SetValue [key, JStr (js_String val)]])"
  by (simp add: set_value_def invoke_def)

text \<open>
  C4. The claim is that \<^verbatim>\<open>set(key, 42)\<close> dispatches the string \<^verbatim>\<open>"42"\<close> on an instance
  of either version. On a SCORM 2004 instance it does; on a SCORM 1.2 instance the code
  passes the value as it is, the number 42, to \<^verbatim>\<open>LMSSetValue\<close>.
\<close>

theorem set_value_v1_passes_number:
  "snd (snd (set_value host (JStr ''cmi.core.score.raw'') (JNum 42) connected_1_2 [])) =
     [Call 5 LMSSetValue [JStr ''cmi.core.score.raw'', JNum 42]] \<and>
   snd (snd (set_value host (JStr ''cmi.score.raw'') (JNum 42) connected_2004 [])) =
     [Call 5 SetValue [JStr ''cmi.score.raw'', JStr ''42'']]"
  by (simp add: set_value_def invoke_def connected_1_2_def connected_2004_def
      scorm_1_2_def scorm_2004_def isV1_def version_def digits.simps)

text \<open>
  C5. On an instance that is not connected, each of \<^verbatim>\<open>get\<close>, \<^verbatim>\<open>set\<close>, \<^verbatim>\<open>status\<close> (with
  or without argument), \<^verbatim>\<open>save\<close>, \<^verbatim>\<open>lastErrorCode\<close> and \<^verbatim>\<open>errorString\<close> returns
  \<^verbatim>\<open>null\<close>, calls nothing on the host (the list of calls is as before) and leaves the
  instance as it was.
\<close>

theorem disconnected_operations_return_null:
  assumes "\<not> connected self"
  shows "get host key self tr = (Inr JNull, self, tr) \<and>
         set_value host key val self tr = (Inr JNull, self, tr) \<and>
         status host st self tr = (Inr JNull, self, tr) \<and>
         save host self tr = (Inr JNull, self, tr) \<and>
         lastErrorCode host self tr = (Inr JNull, self, tr) \<and>
         errorString host code self tr = (Inr JNull, self, tr)"
  using assms
  by (simp add: connected_def get_def set_value_def status_def save_def lastErrorCode_def
      errorString_def notConnected_def)

theorem disconnected_operations_return_null_witness:
  "\<not> connected scorm_1_2 \<and>
   get (lms (JStr ''completed'') (JStr ''true'')) (JStr ''cmi.suspend_data'') scorm_1_2 [] =
     (Inr JNull, scorm_1_2, []) \<and>
   set_value (lms (JStr ''completed'') (JStr ''true'')) (JStr ''cmi.suspend_data'') (JNum 42)
     scorm_1_2 [] = (Inr JNull, scorm_1_2, []) \<and>
   status (lms (JStr ''completed'') (JStr ''true'')) JUndefined scorm_1_2 [] =
     (Inr JNull, scorm_1_2, []) \<and>
   save (lms (JStr ''completed'') (JStr ''true'')) scorm_1_2 [] = (Inr JNull, scorm_1_2, []) \<and>
   lastErrorCode (lms (JStr ''completed'') (JStr ''true'')) scorm_1_2 [] =
     (Inr JNull, scorm_1_2, []) \<and>
   errorString (lms (JStr ''completed'') (JStr ''true'')) JNull scorm_1_2 [] =
     (Inr JNull, scorm_1_2, [])"
proof -
  have h: "\<not> connected scorm_1_2"
    by (simp add: connected_def scorm_1_2_def)
  show ?thesis
    using h disconnected_operations_return_null [OF h,
        of "lms (JStr ''completed'') (JStr ''true'')" "JStr ''cmi.suspend_data''" "[]"
           "JNum 42" JUndefined JNull]
    by simp
qed

subsection \<open>Connection lifecycle\<close>

lemmas prim_defs = begin_session_def end_session_def get_value_def set_value_of_def commit_def
  get_last_error_def get_error_string_def status_field_def exit_field_def

lemma isV1_upd [simp]:
  "isV1 (self\<lparr>p_connected := c\<rparr>) = isV1 self"
  "isV1 (self\<lparr>p_api := r\<rparr>) = isV1 self"
  by (simp_all add: isV1_def version_def)

lemma invoke_Ref:
  "invoke host (Ref a) m args self tr =
     (Inr (host tr (Call a m args)), self, tr @ [Call a m args])"
  by (simp add: invoke_def)

lemma and_then_Inr: "and_then (Inr x, self, tr) f = f x self tr"
  by (simp add: and_then_def)

lemma and_then_Inl: "and_then (Inl e, self, tr) f = (Inl e, self, tr)"
  by (simp add: and_then_def)

lemma get_connected:
  "p_connected self \<Longrightarrow> p_api self = Ref a \<Longrightarrow>
   get host key self tr =
     (Inr (host tr (Call a (get_value self) [key])), self, tr @ [Call a (get_value self) [key]])"
  by (simp add: get_def invoke_Ref get_value_def)

lemma set_value_connected:
  "p_connected self \<Longrightarrow> p_api self = Ref a \<Longrightarrow>
   set_value host key (JStr s) self tr =
     (Inr (host tr (Call a (set_value_of self) [key, JStr s])), self,
      tr @ [Call a (set_value_of self) [key, JStr s]])"
  by (simp add: set_value_def invoke_Ref set_value_of_def)

lemma status_get_connected:
  "p_connected self \<Longrightarrow> p_api self = Ref a \<Longrightarrow>
   status host JUndefined self tr =
     (Inr (host tr (Call a (get_value self) [JStr (status_field self)])), self,
      tr @ [Call a (get_value self) [JStr (status_field self)]])"
  by (simp add: status_def get_connected status_field_def Let_def)

lemma status_set_connected:
  "p_connected self \<Longrightarrow> p_api self = Ref a \<Longrightarrow>
   status host (JStr s) self tr =
     (Inr (host tr (Call a (set_value_of self) [JStr (status_field self), JStr s])), self,
      tr @ [Call a (set_value_of self) [JStr (status_field self), JStr s]])"
  by (simp add: status_def set_value_connected status_field_def Let_def)

lemma save_connected:
  "p_connected self \<Longrightarrow> p_api self = Ref a \<Longrightarrow>
   save host self tr =
     (Inr (host tr (Call a (commit self) [JStr ''''])), self,
      tr @ [Call a (commit self) [JStr '''']])"
  by (simp add: save_def invoke_Ref commit_def)

lemma lastErrorCode_connected:
  "p_connected self \<Longrightarrow> p_api self = Ref a \<Longrightarrow>
   lastErrorCode host self tr =
     (Inr (host tr (Call a (get_last_error self) [])), self,
      tr @ [Call a (get_last_error self) []])"
  by (simp add: lastErrorCode_def invoke_Ref get_last_error_def)

lemma errorString_connected:
  "p_connected self \<Longrightarrow> p_api self = Ref a \<Longrightarrow>
   errorString host code self tr =
     (case js_toString code of
        Inl e \<Rightarrow> (Inl e, self, tr)
      | Inr s \<Rightarrow> (Inr (host tr (Call a (get_error_string self) [JStr s])), self,
                  tr @ [Call a (get_error_string self) [JStr s]]))"
  by (simp add: errorString_def invoke_Ref get_error_string_def split: sum.splits)

lemma end_session_connected:
  "p_api self = Ref a \<Longrightarrow>
   (if isV1 self then invoke host (p_api self) LMSFinish [JStr ''''] self tr
    else invoke host (p_api self) Terminate [JStr ''''] self tr) =
     (Inr (host tr (Call a (end_session self) [JStr ''''])), self,
      tr @ [Call a (end_session self) [JStr '''']])"
  by (simp add: invoke_Ref end_session_def)

lemma terminate_exit_connected:
  "p_connected self \<Longrightarrow> p_api self = Ref a \<Longrightarrow>
   (if completion \<noteq> JStr ''completed'' \<and> completion \<noteq> JStr ''passed''
    then set_value host (JStr (if isV1 self then ''cmi.core.exit'' else ''cmi.exit''))
           (JStr ''suspend'') self tr
    else set_value host (JStr (if isV1 self then ''cmi.core.exit'' else ''cmi.exit''))
           (JStr (if isV1 self then ''logout'' else ''normal'')) self tr) =
     (Inr (host tr (Call a (set_value_of self)
              [JStr (exit_field self), JStr (exit_reason self completion)])), self,
      tr @ [Call a (set_value_of self) [JStr (exit_field self), JStr (exit_reason self completion)]])"
  by (simp add: set_value_connected exit_field_def exit_reason_def)

lemma terminate_connected:
  assumes "p_connected self" "p_api self = Ref a"
  shows "terminate host self tr =
     (let tr2 = tr @ terminate_prelude host self a tr;
          endc = Call a (end_session self) [JStr ''''];
          tr3 = tr2 @ [endc];
          lec = Call a (get_last_error self) []
      in if truthy (host tr2 endc) then (Inr JUndefined, self\<lparr>p_connected := False\<rparr>, tr3)
         else case js_toString (host tr3 lec) of
                Inl e \<Rightarrow> (Inl e, self, tr3 @ [lec])
              | Inr s \<Rightarrow> (Inr JUndefined, self, tr3 @ [lec, Call a (get_error_string self) [JStr s]]))"
  unfolding terminate_def
  using assms
  by (simp add: status_get_connected terminate_exit_connected save_connected
      end_session_connected lastErrorCode_connected errorString_connected and_then_Inr
      terminate_prelude_def Let_def and_then_Inl split: sum.splits)

lemma answered_append:
  "answered host tr (xs @ ys) = answered host tr xs @ answered host (tr @ xs) ys"
  by (induction xs arbitrary: tr) simp_all

lemma new_calls_append [simp]: "new_calls tr (tr @ xs) = xs"
  by (simp add: new_calls_def)

lemma new_calls_same [simp]: "new_calls tr tr = []"
  by (simp add: new_calls_def)

lemma terminate_no_api:
  assumes "p_connected self" "\<not> truthy_ref (p_api self)"
  shows "terminate host self tr = (Inl TypeError, self, tr)"
proof -
  have inv: "\<And>m args. invoke host (p_api self) m args self tr = (Inl TypeError, self, tr)"
    using assms(2) by (cases "p_api self") (simp_all add: invoke_def)
  show ?thesis
    using assms(1)
    by (simp add: terminate_def status_def get_def save_def inv and_then_Inl and_then_Inr Let_def)
qed

lemma truthy_ref_iff: "truthy_ref r \<longleftrightarrow> (\<exists>a. r = Ref a)"
  by (cases r) simp_all

lemma prim_distinct:
  "get_value self \<noteq> end_session self" "set_value_of self \<noteq> end_session self"
  "commit self \<noteq> end_session self" "get_last_error self \<noteq> end_session self"
  "get_error_string self \<noteq> end_session self"
  by (simp_all add: prim_defs)

lemma primitive_of_Call [simp]: "primitive_of (Call a m args) = m"
  by (simp add: primitive_of_def)

text \<open>
  C6. \<^verbatim>\<open>terminate()\<close> on a connected instance. Whenever the end-session primitive of the
  instance's version was called during the method and returned a falsy value, the instance
  is left exactly as it was, so it is still connected. If the instance is no longer
  connected afterwards, that primitive was called and returned a truthy value. And when
  \<^verbatim>\<open>_api\<close> is an object, the primitive is called on it with the empty string.
\<close>

theorem terminate_failure_keeps_connected:
  assumes "connected self" and "terminate host self tr = (r, self', tr')"
  shows "(\<forall>(c, v) \<in> set (answered host tr (new_calls tr tr')).
            primitive_of c = end_session self \<and> \<not> truthy v \<longrightarrow> self' = self \<and> connected self') \<and>
         (\<not> connected self' \<longrightarrow>
            (\<exists>(c, v) \<in> set (answered host tr (new_calls tr tr')).
               primitive_of c = end_session self \<and> truthy v)) \<and>
         (\<forall>a. p_api self = Ref a \<longrightarrow>
            (\<exists>v. (Call a (end_session self) [JStr ''''], v)
                   \<in> set (answered host tr (new_calls tr tr'))))"
proof (cases "truthy_ref (p_api self)")
  case False
  with assms have "self' = self" "tr' = tr"
    by (simp_all add: terminate_no_api connected_def)
  with assms(1) False show ?thesis
    by (auto simp: truthy_ref_iff)
next
  case True
  then obtain a where a: "p_api self = Ref a"
    by (auto simp: truthy_ref_iff)
  from assms(1) have c: "p_connected self"
    by (simp add: connected_def)
  show ?thesis
    using assms(2) c a prim_distinct [of self]
    by (auto simp: terminate_connected [OF c a] Let_def answered_append connected_def
        terminate_prelude_def split: if_splits sum.splits)
qed

theorem terminate_failure_keeps_connected_witness:
  "connected connected_1_2 \<and>
   terminate (lms (JStr ''incomplete'') (JBool False)) connected_1_2 [] =
     (Inr JUndefined, connected_1_2,
      [Call 5 LMSGetValue [JStr ''cmi.core.lesson_status''],
       Call 5 LMSSetValue [JStr ''cmi.core.exit'', JStr ''suspend''],
       Call 5 LMSCommit [JStr ''''],
       Call 5 LMSFinish [JStr ''''],
       Call 5 LMSGetLastError [],
       Call 5 LMSGetErrorString [JStr ''101'']]) \<and>
   (Call 5 LMSFinish [JStr ''''], JBool False)
     \<in> set (answered (lms (JStr ''incomplete'') (JBool False)) []
              (new_calls []
                 [Call 5 LMSGetValue [JStr ''cmi.core.lesson_status''],
                  Call 5 LMSSetValue [JStr ''cmi.core.exit'', JStr ''suspend''],
                  Call 5 LMSCommit [JStr ''''],
                  Call 5 LMSFinish [JStr ''''],
                  Call 5 LMSGetLastError [],
                  Call 5 LMSGetErrorString [JStr ''101'']]))"
proof -
  have v1: "isV1 connected_1_2"
    by (simp add: isV1_def version_def connected_1_2_def scorm_1_2_def)
  have c: "p_connected connected_1_2" and a: "p_api connected_1_2 = Ref 5"
    and u: "updateStatusBeforeTerminate connected_1_2"
    by (simp_all add: connected_1_2_def scorm_1_2_def)
  have h1: "connected connected_1_2"
    using c by (simp add: connected_def)
  have h2: "terminate (lms (JStr ''incomplete'') (JBool False)) connected_1_2 [] =
     (Inr JUndefined, connected_1_2,
      [Call 5 LMSGetValue [JStr ''cmi.core.lesson_status''],
       Call 5 LMSSetValue [JStr ''cmi.core.exit'', JStr ''suspend''],
       Call 5 LMSCommit [JStr ''''],
       Call 5 LMSFinish [JStr ''''],
       Call 5 LMSGetLastError [],
       Call 5 LMSGetErrorString [JStr ''101'']])"
    by (simp add: terminate_connected [OF c a] terminate_prelude_def prim_defs exit_reason_def
        v1 u lms_def Let_def)
  from terminate_failure_keeps_connected [OF h1 h2]
  have "\<exists>v. (Call 5 (end_session connected_1_2) [JStr ''''], v)
          \<in> set (answered (lms (JStr ''incomplete'') (JBool False)) []
              (new_calls []
                 [Call 5 LMSGetValue [JStr ''cmi.core.lesson_status''],
                  Call 5 LMSSetValue [JStr ''cmi.core.exit'', JStr ''suspend''],
                  Call 5 LMSCommit [JStr ''''],
                  Call 5 LMSFinish [JStr ''''],
                  Call 5 LMSGetLastError [],
                  Call 5 LMSGetErrorString [JStr ''101'']]))"
    using a by blast
  then show ?thesis
    using h1 h2 by (auto simp: end_session_def v1 new_calls_def lms_def)
qed

text \<open>
  C8. \<^verbatim>\<open>terminate()\<close> on a connected instance whose \<^verbatim>\<open>updateStatusBeforeTerminate\<close> is
  true and whose host reports the completion status \<open>completion\<close>. The calls it makes are,
  in this order: the read of the status field; the write of the version's exit field
  (\<^verbatim>\<open>cmi.core.exit\<close> for SCORM 1.2, \<^verbatim>\<open>cmi.exit\<close> otherwise), with \<^verbatim>\<open>logout\<close> (SCORM 1.2) or
  \<^verbatim>\<open>normal\<close> when the status is \<^verbatim>\<open>completed\<close> or \<^verbatim>\<open>passed\<close> and with \<^verbatim>\<open>suspend\<close> for every
  other status; the commit; the end-session primitive. Whatever follows is an error query.
\<close>

theorem terminate_sets_exit_reason_and_saves:
  assumes "connected self" and "p_api self = Ref a" and "updateStatusBeforeTerminate self"
    and "host tr (Call a (get_value self) [JStr (status_field self)]) = completion"
  shows "\<exists>post. snd (snd (terminate host self tr)) =
           tr @ [Call a (get_value self) [JStr (status_field self)],
                 Call a (set_value_of self)
                   [JStr (exit_field self),
                    JStr (if completion = JStr ''completed'' \<or> completion = JStr ''passed''
                          then (if isV1 self then ''logout'' else ''normal'')
                          else ''suspend'')],
                 Call a (commit self) [JStr ''''],
                 Call a (end_session self) [JStr '''']] @ post \<and>
           (\<forall>c \<in> set post. primitive_of c = get_last_error self \<or>
                              primitive_of c = get_error_string self)"
proof -
  from assms(1) have c: "p_connected self"
    by (simp add: connected_def)
  show ?thesis
    using assms(3,4)
    by (auto simp: terminate_connected [OF c assms(2)] Let_def terminate_prelude_def
        exit_reason_def split: sum.splits)
qed

theorem terminate_sets_exit_reason_and_saves_witness:
  "connected connected_1_2 \<and> p_api connected_1_2 = Ref 5 \<and>
   updateStatusBeforeTerminate connected_1_2 \<and>
   lms (JStr ''completed'') (JStr ''true'') []
     (Call 5 LMSGetValue [JStr ''cmi.core.lesson_status'']) = JStr ''completed'' \<and>
   (\<exists>post. snd (snd (terminate (lms (JStr ''completed'') (JStr ''true'')) connected_1_2 [])) =
      [Call 5 LMSGetValue [JStr ''cmi.core.lesson_status''],
       Call 5 LMSSetValue [JStr ''cmi.core.exit'', JStr ''logout''],
       Call 5 LMSCommit [JStr ''''],
       Call 5 LMSFinish [JStr '''']] @ post)"
proof -
  let ?host = "lms (JStr ''completed'') (JStr ''true'')"
  have v1: "isV1 connected_1_2"
    by (simp add: isV1_def version_def connected_1_2_def scorm_1_2_def)
  have h1: "connected connected_1_2" and h2: "p_api connected_1_2 = Ref 5"
    and h3: "updateStatusBeforeTerminate connected_1_2"
    by (simp_all add: connected_def connected_1_2_def scorm_1_2_def)
  have h4: "?host [] (Call 5 (get_value connected_1_2) [JStr (status_field connected_1_2)]) =
      JStr ''completed''"
    by (simp add: lms_def prim_defs v1)
  show ?thesis
    using h1 h2 h3 h4 terminate_sets_exit_reason_and_saves [where host = "?host" and tr = "[]"
        and completion = "JStr ''completed''", OF h1 h2 h3 h4]
    by (auto simp: prim_defs v1)
qed

lemma prim_upd [simp]:
  "begin_session (self\<lparr>p_connected := c\<rparr>) = begin_session self"
  "get_value (self\<lparr>p_connected := c\<rparr>) = get_value self"
  "set_value_of (self\<lparr>p_connected := c\<rparr>) = set_value_of self"
  "commit (self\<lparr>p_connected := c\<rparr>) = commit self"
  "status_field (self\<lparr>p_connected := c\<rparr>) = status_field self"
  by (simp_all add: prim_defs)

lemma begin_session_found:
  "p_api self = Ref a \<Longrightarrow>
   (if isV1 self then invoke host (p_api self) LMSInitialize [JStr ''''] self tr
    else invoke host (p_api self) Initialize [JStr ''''] self tr) =
     (Inr (host tr (Call a (begin_session self) [JStr ''''])), self,
      tr @ [Call a (begin_session self) [JStr '''']])"
  by (simp add: invoke_Ref begin_session_def)

lemma initialize_found:
  assumes "\<not> p_connected self" and "top_w (heap b (global_window b)) = Ref t"
    and "findAPI b [Ref (global_window b), opener (heap b t)] self = (None, self1)"
    and "p_api self1 = Ref a"
  shows "initialize b host self tr =
     (let tr1 = tr @ [Call a (begin_session self1) [JStr '''']];
          getc = Call a (get_value self1) [JStr (status_field self1)];
          completion = host tr1 getc
      in (Inr JUndefined, self1\<lparr>p_connected := True\<rparr>,
          tr1 @ (if updateStatusAfterInitialize self1
                 then getc #
                   (if \<not> truthy completion \<or> completion = JStr ''not attempted''
                       \<or> completion = JStr ''unknown''
                    then [Call a (set_value_of self1) [JStr (status_field self1), JStr ''incomplete''],
                          Call a (commit self1) [JStr '''']]
                    else [])
                 else [])))"
proof -
  let ?s = "self1\<lparr>p_connected := True\<rparr>"
  have c: "p_connected ?s" and a: "p_api ?s = Ref a"
    using assms(4) by simp_all
  show ?thesis
    unfolding initialize_def
    using assms
    by (simp add: begin_session_found and_then_Inr Let_def
        status_get_connected [OF c a] status_set_connected [OF c a] save_connected [OF c a])
qed

lemma findAPI_keeps:
  "updateStatusAfterInitialize (snd (findAPI b ws self)) = updateStatusAfterInitialize self"
  "updateStatusBeforeTerminate (snd (findAPI b ws self)) = updateStatusBeforeTerminate self"
  "p_depth (snd (findAPI b ws self)) = p_depth self"
  "p_connected (snd (findAPI b ws self)) = p_connected self"
  by (simp_all add: findAPI_def Let_def split: sum.splits)

lemma prim_distinct_commit:
  "begin_session self \<noteq> commit self" "get_value self \<noteq> commit self"
  "set_value_of self \<noteq> commit self"
  by (simp_all add: prim_defs)

text \<open>
  C7. \<^verbatim>\<open>initialize()\<close> on an instance that is not connected, with
  \<^verbatim>\<open>updateStatusAfterInitialize\<close> true, in a browser where discovery succeeds and finds
  the API object \<open>a\<close>; \<open>completion\<close> is the completion status the host reports after the
  begin-session call. When it is empty (falsy: among strings, the empty string),
  \<^verbatim>\<open>not attempted\<close> or \<^verbatim>\<open>unknown\<close>, the method writes \<^verbatim>\<open>incomplete\<close> to the status field
  and commits, exactly once; for every other value it makes no call after the read of the
  status, so neither a write nor a commit.
\<close>

theorem initialize_marks_incomplete:
  assumes "\<not> connected self" and "updateStatusAfterInitialize self"
    and "top_w (heap b (global_window b)) = Ref t"
    and "findAPI b [Ref (global_window b), opener (heap b t)] self = (None, self1)"
    and "p_api self1 = Ref a"
    and "host (tr @ [Call a (begin_session self1) [JStr '''']])
              (Call a (get_value self1) [JStr (status_field self1)]) = completion"
  shows "initialize b host self tr =
           (Inr JUndefined, self1\<lparr>p_connected := True\<rparr>,
            tr @ [Call a (begin_session self1) [JStr ''''],
                  Call a (get_value self1) [JStr (status_field self1)]] @
                 (if \<not> truthy completion \<or> completion = JStr ''not attempted''
                     \<or> completion = JStr ''unknown''
                  then [Call a (set_value_of self1) [JStr (status_field self1), JStr ''incomplete''],
                        Call a (commit self1) [JStr '''']]
                  else [])) \<and>
         length (filter (\<lambda>c. primitive_of c = commit self1)
                   (new_calls tr (snd (snd (initialize b host self tr))))) =
           (if \<not> truthy completion \<or> completion = JStr ''not attempted''
               \<or> completion = JStr ''unknown'' then 1 else 0)"
proof -
  from assms(1) have c: "\<not> p_connected self"
    by (simp add: connected_def)
  have u: "updateStatusAfterInitialize self1"
    using findAPI_keeps(1) [of b "[Ref (global_window b), opener (heap b t)]" self] assms(2,4)
    by simp
  show ?thesis
    using u assms(6) prim_distinct_commit [of self1]
    by (simp add: initialize_found [OF c assms(3,4,5)] Let_def)
qed

theorem initialize_marks_incomplete_witness:
  "\<not> connected scorm_1_2 \<and> updateStatusAfterInitialize scorm_1_2 \<and>
   top_w (heap two_tops (global_window two_tops)) = Ref 0 \<and>
   findAPI two_tops [Ref (global_window two_tops), opener (heap two_tops 0)] scorm_1_2 =
     (None, scorm_1_2\<lparr>p_api := Ref 5\<rparr>) \<and>
   initialize two_tops (lms (JStr ''not attempted'') (JStr ''true'')) scorm_1_2 [] =
     (Inr JUndefined, scorm_1_2\<lparr>p_api := Ref 5, p_connected := True\<rparr>,
      [Call 5 LMSInitialize [JStr ''''],
       Call 5 LMSGetValue [JStr ''cmi.core.lesson_status''],
       Call 5 LMSSetValue [JStr ''cmi.core.lesson_status'', JStr ''incomplete''],
       Call 5 LMSCommit [JStr '''']])"
proof -
  let ?host = "lms (JStr ''not attempted'') (JStr ''true'')"
  let ?self1 = "scorm_1_2\<lparr>p_api := Ref 5\<rparr>"
  have h1: "\<not> connected scorm_1_2" and h2: "updateStatusAfterInitialize scorm_1_2"
    by (simp_all add: connected_def scorm_1_2_def)
  have h3: "top_w (heap two_tops (global_window two_tops)) = Ref 0"
    by (simp add: two_tops_def)
  have h4: "findAPI two_tops [Ref (global_window two_tops), opener (heap two_tops 0)] scorm_1_2 =
     (None, ?self1)"
    by (simp add: findAPI_def two_tops_def scorm_1_2_def do_while_same_window version_def isV1_def)
  have h5: "p_api ?self1 = Ref 5"
    by simp
  have v1: "isV1 scorm_1_2"
    by (simp add: isV1_def version_def scorm_1_2_def)
  have h6: "?host ([] @ [Call 5 (begin_session ?self1) [JStr '''']])
       (Call 5 (get_value ?self1) [JStr (status_field ?self1)]) = JStr ''not attempted''"
    by (simp add: lms_def prim_defs v1)
  show ?thesis
    using h1 h2 h3 h4
      initialize_marks_incomplete [where host = "?host" and tr = "[]"
          and completion = "JStr ''not attempted''", OF h1 h2 h3 h4 h5 h6, THEN conjunct1]
    by (simp add: prim_defs v1)
qed

subsection \<open>Discovery that fails\<close>

text \<open>
  The only error of the loops is the one thrown on a \<^verbatim>\<open>null\<close> or \<^verbatim>\<open>undefined\<close> element.
\<close>

lemma for_of_throws:
  "for_of h depth windows api1_2 api2004 = Inl e \<Longrightarrow> e = TypeError"
  by (induction h depth windows api1_2 api2004 rule: for_of.induct)
     (auto split: prod.splits bool.splits)

text \<open>
  A failed discovery can change the instance. After \<^verbatim>\<open>findAPI\<close> has found the API object
  5 on the global window, a second call in a browser whose global window has lost its
  slot throws the not-found error and leaves \<^verbatim>\<open>_api\<close> different from what it was.
\<close>

theorem findAPI_failure_overwrites_api:
  "snd (findAPI two_tops [Ref 0] scorm_1_2) = scorm_1_2\<lparr>p_api := Ref 5\<rparr> \<and>
   fst (findAPI bare [Ref 0] (scorm_1_2\<lparr>p_api := Ref 5\<rparr>)) =
     Some (ApiNotFound (Some VERSION_1_2)) \<and>
   p_api (snd (findAPI bare [Ref 0] (scorm_1_2\<lparr>p_api := Ref 5\<rparr>))) \<noteq>
     p_api (scorm_1_2\<lparr>p_api := Ref 5\<rparr>)"
  by (simp add: findAPI_def two_tops_def bare_def scorm_1_2_def do_while_same_window
      version_def isV1_def)

text \<open>
  C9, amended. When \<^verbatim>\<open>findAPI\<close> throws the not-found error, \<^verbatim>\<open>version\<close> and
  \<^verbatim>\<open>connected\<close>, and every field other than \<^verbatim>\<open>_api\<close>, are as before the call, and
  \<^verbatim>\<open>_api\<close> is falsy. On an instance with a version the error names that version (and
  \<^verbatim>\<open>_api\<close> has been assigned the empty slot value that was read); on an instance without
  a version the whole instance, \<^verbatim>\<open>_api\<close> included, is as before.
\<close>

theorem findAPI_failure_state:
  assumes "findAPI b windows self = (Some (ApiNotFound v), self')"
  shows "version self' = version self \<and> connected self' = connected self \<and>
         self' = self\<lparr>p_api := p_api self'\<rparr> \<and> \<not> truthy_ref (p_api self') \<and>
         (if truthy_str (version self) then v = version self
          else v = None \<and> self' = self)"
  using assms
  by (auto simp: findAPI_def Let_def version_def connected_def isV1_def
      split: sum.splits if_splits dest: for_of_throws)

theorem findAPI_failure_state_witness:
  "findAPI bare [Ref 0] (scorm_1_2\<lparr>p_api := Ref 5\<rparr>) =
     (Some (ApiNotFound (Some VERSION_1_2)), scorm_1_2\<lparr>p_api := Undefined\<rparr>) \<and>
   version (scorm_1_2\<lparr>p_api := Undefined\<rparr>) = version (scorm_1_2\<lparr>p_api := Ref 5\<rparr>) \<and>
   connected (scorm_1_2\<lparr>p_api := Undefined\<rparr>) = connected (scorm_1_2\<lparr>p_api := Ref 5\<rparr>) \<and>
   \<not> truthy_ref (p_api (scorm_1_2\<lparr>p_api := Undefined\<rparr>))"
proof -
  have h: "findAPI bare [Ref 0] (scorm_1_2\<lparr>p_api := Ref 5\<rparr>) =
     (Some (ApiNotFound (Some VERSION_1_2)), scorm_1_2\<lparr>p_api := Undefined\<rparr>)"
    by (simp add: findAPI_def bare_def scorm_1_2_def do_while_same_window version_def isV1_def)
  show ?thesis
    using h findAPI_failure_state [OF h] by simp
qed

subsection \<open>The version over an instance's lifetime\<close>

lemma findAPI_pinned_version:
  "truthy_str (p_version self) \<Longrightarrow> p_version (snd (findAPI b ws self)) = p_version self"
  by (simp add: findAPI_def Let_def version_def split: sum.splits)

lemma findAPI_pinned_error:
  "truthy_str (p_version self) \<Longrightarrow> fst (findAPI b ws self) \<noteq> Some (ApiNotFound None)"
  by (cases "p_version self")
     (auto simp: findAPI_def Let_def version_def split: sum.splits dest: for_of_throws)

lemma findAPI_found_Ref:
  "findAPI b ws self = (None, self1) \<Longrightarrow> \<exists>a. p_api self1 = Ref a"
  by (auto simp: findAPI_def Let_def truthy_ref_iff split: sum.splits if_splits)

lemma invoke_self: "fst (snd (invoke host r m args self tr)) = self"
  by (cases r) (simp_all add: invoke_def)

lemma field_access_self:
  "fst (snd (get host key self tr)) = self"
  "fst (snd (set_value host key val self tr)) = self"
  "fst (snd (status host st self tr)) = self"
  "fst (snd (save host self tr)) = self"
  "fst (snd (lastErrorCode host self tr)) = self"
  "fst (snd (errorString host code self tr)) = self"
  by (simp_all add: get_def set_value_def status_def save_def lastErrorCode_def errorString_def
      notConnected_def invoke_self Let_def split: sum.splits)

lemma terminate_version: "p_version (fst (snd (terminate host self tr))) = p_version self"
proof (cases "p_connected self")
  case False
  then show ?thesis
    by (simp add: terminate_def notConnected_def)
next
  case c: True
  show ?thesis
  proof (cases "truthy_ref (p_api self)")
    case False
    with c show ?thesis
      by (simp add: terminate_no_api)
  next
    case True
    then obtain a where a: "p_api self = Ref a"
      by (auto simp: truthy_ref_iff)
    show ?thesis
      by (simp add: terminate_connected [OF c a] Let_def split: sum.splits)
  qed
qed

lemma initialize_version:
  assumes "truthy_str (p_version self)"
  shows "p_version (fst (snd (initialize b host self tr))) = p_version self"
proof (cases "p_connected self")
  case True
  then show ?thesis
    by (simp add: initialize_def)
next
  case c: False
  show ?thesis
  proof (cases "top_w (heap b (global_window b))")
    case (Ref t)
    let ?ws = "[Ref (global_window b), opener (heap b t)]"
    obtain e self1 where f: "findAPI b ?ws self = (e, self1)"
      by (cases "findAPI b ?ws self")
    have v: "p_version self1 = p_version self"
      using findAPI_pinned_version [OF assms, of b ?ws] f by simp
    show ?thesis
    proof (cases e)
      case None
      with f findAPI_found_Ref obtain a where a: "p_api self1 = Ref a"
        by blast
      from f None have f': "findAPI b ?ws self = (None, self1)"
        by simp
      show ?thesis
        by (simp add: initialize_found [OF c Ref f' a] Let_def v)
    next
      case (Some err)
      with c Ref f v show ?thesis
        by (simp add: initialize_def)
    qed
  qed (simp_all add: initialize_def c)
qed

lemma evolves_version:
  "evolves s self \<Longrightarrow> truthy_str (p_version s) \<Longrightarrow> p_version self = p_version s"
proof (induction rule: evolves.induct)
  case (by_findAPI s self b windows)
  then show ?case by (simp add: findAPI_pinned_version)
next
  case (by_initialize s self b host tr)
  then show ?case by (simp add: initialize_version)
qed (simp_all add: terminate_version field_access_self)

text \<open>
  C10. An instance that the constructor returns has one of the two version tokens, the
  one it was constructed with (so every other argument, the absent one included, is
  rejected). Whatever is then called on it, its version stays that token, exactly one of
  \<^verbatim>\<open>isV1()\<close> and \<^verbatim>\<open>isV2()\<close> holds, and the guard \<^verbatim>\<open>if (this.version)\<close> of \<^verbatim>\<open>findAPI\<close> is
  true: the branch that resolves the version is never entered, so \<^verbatim>\<open>findAPI\<close> neither
  throws the error of that branch nor changes the version.
\<close>

theorem version_fixed_at_construction:
  assumes "constructor v = Inr s" and "evolves s self"
  shows "(v = Some VERSION_1_2 \<or> v = Some VERSION_2004) \<and> version self = v \<and>
         isV1 self \<noteq> isV2 self \<and> truthy_str (version self) \<and>
         fst (findAPI b windows self) \<noteq> Some (ApiNotFound None) \<and>
         version (snd (findAPI b windows self)) = v"
proof -
  from assms(1) have v: "v = Some VERSION_1_2 \<or> v = Some VERSION_2004" and s: "p_version s = v"
    by (auto simp: constructor_def split: if_splits)
  from v s have t: "truthy_str (p_version s)"
    by auto
  from evolves_version [OF assms(2) t] s have e: "p_version self = v"
    by simp
  with t s have t': "truthy_str (p_version self)"
    by simp
  show ?thesis
    using v e t' findAPI_pinned_error [OF t', of b windows]
      findAPI_pinned_version [OF t', of b windows]
    by (auto simp: version_def isV1_def isV2_def)
qed

theorem version_fixed_at_construction_witness:
  "constructor (Some VERSION_1_2) = Inr scorm_1_2 \<and>
   evolves scorm_1_2 (snd (findAPI two_tops [Ref 0] scorm_1_2)) \<and>
   version (snd (findAPI two_tops [Ref 0] scorm_1_2)) = Some VERSION_1_2 \<and>
   isV1 (snd (findAPI two_tops [Ref 0] scorm_1_2)) \<and>
   \<not> isV2 (snd (findAPI two_tops [Ref 0] scorm_1_2))"
proof -
  have h1: "constructor (Some VERSION_1_2) = Inr scorm_1_2"
    by (simp add: constructor_def scorm_1_2_def)
  have h2: "evolves scorm_1_2 (snd (findAPI two_tops [Ref 0] scorm_1_2))"
    by (rule by_findAPI [OF constructed])
  show ?thesis
    using h1 h2 version_fixed_at_construction [OF h1 h2, of bare "[]"]
    by (simp add: isV1_def isV2_def)
qed

end
